theory Spec2Isabelle
  imports Complex_Main "HOL-Library.Sublist"
begin

section \<open>The certificate video generator (api/index.js)\<close>

text \<open>
  The repository holds one Express handler, \<^verbatim>\<open>POST /generate\<close>, in two copies:
  \<^verbatim>\<open>api/index.js\<close> and a second copy of the same file with more logging and explicit CORS
  headers. The two copies run the same steps; where they differ in what the caller can
  observe (the message built by the ffmpeg error callback) the model takes the copy as a
  parameter.
\<close>

datatype source_file = ApiIndex | SecondCopy

subsection \<open>JavaScript strings\<close>

text \<open>
  A string is a list of code units, and the model has the code units below 256 only.
  \<^item> \<open>trim\<close> removes tab, line feed, vertical tab, form feed, carriage return, space and the
    no-break space U+00A0 from both ends: all that \<^verbatim>\<open>String.prototype.trim\<close> removes among
    the code units of the model (its further white space, U+FEFF, U+2028, U+2029 and the
    space separators, lies beyond them).
  \<^item> \<open>toUpperCase\<close> maps the letters a to z to A to Z and leaves every other code unit as it
    is. That is \<^verbatim>\<open>String.prototype.toUpperCase\<close> on ASCII strings (\<open>ascii\<close> below) and not
    beyond: JavaScript maps the non-ASCII letters too (U+00E9 to U+00C9) and works on code
    points, so that it re-cases a surrogate pair as one character.
  Whether a sanitized name is empty, which is all the handler tests, does not depend on the
  case mapping (upper-casing neither makes nor removes white space, colons or double
  quotes). What is stated about sanitizing a name twice depends on it, and is stated for
  ASCII strings.
\<close>

definition ascii :: "string \<Rightarrow> bool" where
  "ascii s \<longleftrightarrow> list_all (\<lambda>c. of_char c < (128::nat)) s"

definition backslash :: char where
  "backslash = CHR 0x5C"

definition quote :: char where
  "quote = CHR 0x27"

definition dquote :: char where
  "dquote = CHR 0x22"

definition toUpperCaseChar :: "char \<Rightarrow> char" where
  "toUpperCaseChar c =
     (case map_of (zip ''abcdefghijklmnopqrstuvwxyz'' ''ABCDEFGHIJKLMNOPQRSTUVWXYZ'') c of
        Some u \<Rightarrow> u
      | None \<Rightarrow> c)"

definition toUpperCase :: "string \<Rightarrow> string" where
  "toUpperCase s = map toUpperCaseChar s"

definition isWhiteSpace :: "char \<Rightarrow> bool" where
  "isWhiteSpace c \<longleftrightarrow>
     c \<in> {CHR 0x09, CHR 0x0A, CHR 0x0B, CHR 0x0C, CHR 0x0D, CHR 0x20, CHR 0xA0}"

definition trim :: "string \<Rightarrow> string" where
  "trim s = rev (dropWhile isWhiteSpace (rev (dropWhile isWhiteSpace s)))"

text \<open>\<^verbatim>\<open>s.replace(/c/g, r)\<close> for a single character \<open>c\<close> and a replacement text without \<^verbatim>\<open>$\<close>.\<close>

definition replaceAll :: "char \<Rightarrow> string \<Rightarrow> string \<Rightarrow> string" where
  "replaceAll c r s = concat (map (\<lambda>x. if x = c then r else [x]) s)"

text \<open>\<^verbatim>\<open>a || b\<close> on a value that is a string or undefined: the empty string is falsy.\<close>

fun orElse :: "string option \<Rightarrow> string \<Rightarrow> string" where
  "orElse None d = d"
| "orElse (Some s) d = (if s = [] then d else s)"

text \<open>A non-negative integer interpolated into a template literal prints in decimal.\<close>

definition digitChar :: "nat \<Rightarrow> char" where
  "digitChar d = ''0123456789'' ! d"

fun showNat :: "nat \<Rightarrow> string" where
  "showNat n = (if n < 10 then [digitChar n] else showNat (n div 10) @ [digitChar (n mod 10)])"

declare showNat.simps [simp del]

subsection \<open>Module constants\<close>

text \<open>
  \<open>sep\<close> is the platform's path separator (\<^verbatim>\<open>path.join\<close> uses it); \<open>tmpDirRoot\<close>,
  \<open>TEMPLATE_VIDEO\<close> and \<open>FONT_FILE\<close> are the paths the module computes when it is loaded.
\<close>

record config =
  sep :: char
  tmpDirRoot :: string
  TEMPLATE_VIDEO :: string
  FONT_FILE :: string

definition CANVAS_W :: nat where
  "CANVAS_W = 1240"

definition CANVAS_H :: nat where
  "CANVAS_H = 1748"

text \<open>\<^verbatim>\<open>path.join(a, b)\<close> on two normalised components.\<close>

definition pathJoin :: "config \<Rightarrow> string \<Rightarrow> string \<Rightarrow> string" where
  "pathJoin cfg a b = a @ [sep cfg] @ b"

definition sanitizeForDrawText :: "string \<Rightarrow> string" where
  "sanitizeForDrawText s =
     (if s = [] then [] else filter (\<lambda>c. c \<noteq> CHR '':'' \<and> c \<noteq> dquote) s)"

text \<open>The name as the handler computes it from the raw field.\<close>

definition sanitizeName :: "string \<Rightarrow> string" where
  "sanitizeName nameRaw = sanitizeForDrawText (trim (toUpperCase nameRaw))"

subsection \<open>The image pipeline handed to sharp\<close>

type_synonym bytes = "nat list"

definition targetSize :: nat where
  "targetSize = 600"

definition borderRadius :: nat where
  "borderRadius = targetSize div 2 - 5"

text \<open>The stroke width is the literal 10 of the template.\<close>

definition borderStrokeWidth :: nat where
  "borderStrokeWidth = 10"

definition newline :: char where
  "newline = CHR 0x0A"

definition circleSvg :: string where
  "circleSvg =
     [newline] @ ''      <svg width=\"'' @ showNat targetSize @ ''\" height=\"'' @ showNat targetSize
       @ ''\" xmlns=\"http://www.w3.org/2000/svg\">'' @
     [newline] @ ''        <circle cx=\"'' @ showNat (targetSize div 2) @ ''\" cy=\"''
       @ showNat (targetSize div 2) @ ''\" r=\"'' @ showNat (targetSize div 2) @ ''\" fill=\"#fff\"/>'' @
     [newline] @ ''      </svg>''"

definition borderSvg :: string where
  "borderSvg =
     [newline] @ ''      <svg width=\"'' @ showNat targetSize @ ''\" height=\"'' @ showNat targetSize
       @ ''\" xmlns=\"http://www.w3.org/2000/svg\">'' @
     [newline] @ ''        <circle cx=\"'' @ showNat (targetSize div 2) @ ''\" cy=\"''
       @ showNat (targetSize div 2) @ ''\" r=\"'' @ showNat borderRadius @ ''\"'' @
     [newline] @ ''          fill=\"none\" stroke=\"#ff9933\" stroke-width=\"''
       @ showNat borderStrokeWidth @ ''\"/>'' @
     [newline] @ ''      </svg>''"

text \<open>
  The chain \<^verbatim>\<open>sharp(buf).resize({...}).composite([...]).png().toFile(p)\<close> as the data it
  passes: the resize options, the layers with their blend modes, the encoder, the target.
\<close>

record sharpJob =
  resizeWidth :: nat
  resizeHeight :: nat
  resizeFit :: string
  composite :: "(string \<times> string) list"
  encoder :: string
  toFile :: string

definition overlayJob :: "string \<Rightarrow> sharpJob" where
  "overlayJob overlayPng =
     \<lparr>resizeWidth = targetSize, resizeHeight = targetSize, resizeFit = ''cover'',
      composite = [(circleSvg, ''dest-in''), (borderSvg, ''over'')],
      encoder = ''png'', toFile = overlayPng\<rparr>"

subsection \<open>Placement and the filter graph\<close>

definition overlayX :: nat where
  "overlayX = 620 - 300"

definition overlayY :: nat where
  "overlayY = 425 - 300"

definition fontPathForFF :: "string \<Rightarrow> string" where
  "fontPathForFF fontCopyPath = replaceAll backslash ''/'' fontCopyPath"

definition fontPathEscapedForFilter :: "string \<Rightarrow> string" where
  "fontPathEscapedForFilter fontCopyPath =
     replaceAll quote [backslash, quote]
       (replaceAll (CHR '':'') [backslash, CHR '':''] (fontPathForFF fontCopyPath))"

definition safeName :: "string \<Rightarrow> string" where
  "safeName name = replaceAll quote [backslash, quote] name"

definition drawText :: "string \<Rightarrow> string \<Rightarrow> string" where
  "drawText fontCopyPath name =
     ''drawtext=fontfile='' @ [quote] @ fontPathEscapedForFilter fontCopyPath @ [quote]
       @ '':text='' @ [quote] @ safeName name @ [quote]
       @ '':fontcolor=#274245:fontsize=70:x=620-text_w/2:y=820''"

definition filterComplex :: "string \<Rightarrow> string \<Rightarrow> string" where
  "filterComplex fontCopyPath name =
     ''[0:v]scale='' @ showNat CANVAS_W @ '':'' @ showNat CANVAS_H
       @ '':force_original_aspect_ratio=decrease,''
     @ ''pad='' @ showNat CANVAS_W @ '':'' @ showNat CANVAS_H @ '':(ow-iw)/2:(oh-ih)/2:black,setsar=1[base];''
     @ ''[1:v]format=rgba[ovr];''
     @ ''[base][ovr]overlay='' @ showNat overlayX @ '':'' @ showNat overlayY @ '':format=auto[tmp];''
     @ ''[tmp]'' @ drawText fontCopyPath name @ '',format=yuv420p[v]''"

record ffmpegJob =
  inputs :: "string list"
  complexFilter :: string
  outputOptions :: "string list"
  save :: string

definition renderJob :: "config \<Rightarrow> string \<Rightarrow> string \<Rightarrow> string \<Rightarrow> string \<Rightarrow> ffmpegJob" where
  "renderJob cfg fontCopyPath overlayPng name outputPath =
     \<lparr>inputs = [TEMPLATE_VIDEO cfg, overlayPng],
      complexFilter = filterComplex fontCopyPath name,
      outputOptions = [''-map'', ''[v]'', ''-map'', ''0:a?'', ''-c:v'', ''libx264'', ''-crf'', ''18'',
        ''-preset'', ''veryfast'', ''-pix_fmt'', ''yuv420p'', ''-c:a'', ''aac'',
        ''-movflags'', ''+faststart'', ''-shortest''],
      save = outputPath\<rparr>"

subsection \<open>The file system and the calls that do the work\<close>

datatype node = Dir | File bytes

text \<open>
  The state a request runs in: the files on disk, and the costly calls started so far, in
  order, each with what it was given: \<^verbatim>\<open>fs.copy\<close> of the font (source and target), the
  \<^verbatim>\<open>sharp\<close> pipeline, the \<^verbatim>\<open>ffmpeg\<close> run.
\<close>

datatype call = FsCopy string string | SharpToFile sharpJob | FfmpegSave ffmpegJob

record state =
  files :: "string \<rightharpoonup> node"
  calls :: "call list"

definition called :: "call \<Rightarrow> state \<Rightarrow> state" where
  "called c st = st\<lparr>calls := calls st @ [c]\<rparr>"

definition inside :: "config \<Rightarrow> string \<Rightarrow> string \<Rightarrow> bool" where
  "inside cfg d p \<longleftrightarrow> p = d \<or> prefix (d @ [sep cfg]) p"

definition pathExists :: "string \<Rightarrow> state \<Rightarrow> bool" where
  "pathExists p st \<longleftrightarrow> files st p \<noteq> None"

definition ensureDir :: "string \<Rightarrow> state \<Rightarrow> state" where
  "ensureDir p st = (if pathExists p st then st else st\<lparr>files := (files st)(p \<mapsto> Dir)\<rparr>)"

text \<open>\<^verbatim>\<open>fs.remove\<close> deletes a file or a whole directory tree and accepts a missing path.\<close>

definition fsRemove :: "config \<Rightarrow> string \<Rightarrow> state \<Rightarrow> state" where
  "fsRemove cfg d st = st\<lparr>files := (\<lambda>p. if inside cfg d p then None else files st p)\<rparr>"

definition writeFile :: "string \<Rightarrow> bytes \<Rightarrow> state \<Rightarrow> state" where
  "writeFile p b st = st\<lparr>files := (files st)(p \<mapsto> File b)\<rparr>"

text \<open>A thrown \<^verbatim>\<open>Error\<close> is its message.\<close>

definition fsCopy :: "string \<Rightarrow> string \<Rightarrow> state \<Rightarrow> string + state" where
  "fsCopy src dst st =
     (case files st src of
        None \<Rightarrow> Inl (''ENOENT: no such file or directory, lstat '' @ [quote] @ src @ [quote])
      | Some n \<Rightarrow> Inr (st\<lparr>files := (files st)(dst \<mapsto> n)\<rparr>))"

definition readFile :: "string \<Rightarrow> state \<Rightarrow> string + bytes" where
  "readFile p st =
     (case files st p of
        None \<Rightarrow> Inl (''ENOENT: no such file or directory, open '' @ [quote] @ p @ [quote])
      | Some Dir \<Rightarrow> Inl ''EISDIR: illegal operation on a directory, read''
      | Some (File b) \<Rightarrow> Inr b)"

subsection \<open>The external engines\<close>

text \<open>
  What sharp and ffmpeg do is outside the repository. sharp either throws (the message) or
  yields the encoded image; ffmpeg either fires \<^verbatim>\<open>error\<close> with \<^verbatim>\<open>err.message\<close> and the
  collected stderr (possibly undefined), or fires \<^verbatim>\<open>end\<close> with the output written.
\<close>

datatype ffmpegResult = FfmpegError string "string option" | FfmpegEnd bytes

record env =
  sharpRun :: "sharpJob \<Rightarrow> bytes \<Rightarrow> string + bytes"
  ffmpegRun :: "ffmpegJob \<Rightarrow> ffmpegResult"

text \<open>The message of the \<^verbatim>\<open>Error\<close> the ffmpeg error callback rejects with.\<close>

fun ffmpegRejectMessage :: "source_file \<Rightarrow> string \<Rightarrow> string option \<Rightarrow> string" where
  "ffmpegRejectMessage ApiIndex message stderr = ''ffmpeg error: '' @ orElse stderr message"
| "ffmpegRejectMessage SecondCopy message stderr =
     orElse (Some (orElse stderr message)) ''ffmpeg error''"

subsection \<open>The handler of POST /generate\<close>

record upload =
  file_path :: string

record request =
  body_name :: "string option"
  req_file :: "upload option"

text \<open>\<^verbatim>\<open>(req.body.name || '').toString()\<close> on a text field.\<close>

definition nameRaw :: "request \<Rightarrow> string" where
  "nameRaw req = orElse (body_name req) []"

text \<open>
  A response is \<^verbatim>\<open>res.status(code).json({ error: message })\<close> or
  \<^verbatim>\<open>res.download(path, filename)\<close>.
\<close>

datatype response = Json nat string | Download string string

text \<open>The \<^verbatim>\<open>try\<close> block either sends a response or throws.\<close>

datatype outcome = Returned response state | Thrown string state

fun stateOf :: "outcome \<Rightarrow> state" where
  "stateOf (Returned res st) = st"
| "stateOf (Thrown message st) = st"

definition buildAndRender ::
  "source_file \<Rightarrow> config \<Rightarrow> env \<Rightarrow> string \<Rightarrow> string \<Rightarrow> string \<Rightarrow> state \<Rightarrow> outcome" where
  "buildAndRender v cfg env workDir name uploadedPath st =
     (let fontCopyPath = pathJoin cfg workDir ''Montserrat-Bold.ttf'' in
      case fsCopy (FONT_FILE cfg) fontCopyPath (called (FsCopy (FONT_FILE cfg) fontCopyPath) st) of
        Inl err \<Rightarrow> Thrown err (called (FsCopy (FONT_FILE cfg) fontCopyPath) st)
      | Inr st1 \<Rightarrow>
          (let overlayPng = pathJoin cfg workDir ''overlay_600.png'' in
           case readFile uploadedPath st1 of
             Inl err \<Rightarrow> Thrown err st1
           | Inr inputBuffer \<Rightarrow>
               (case sharpRun env (overlayJob overlayPng) inputBuffer of
                  Inl err \<Rightarrow> Thrown err (called (SharpToFile (overlayJob overlayPng)) st1)
                | Inr png \<Rightarrow>
                    (let st2 = writeFile overlayPng png
                                 (called (SharpToFile (overlayJob overlayPng)) st1);
                         outputPath = pathJoin cfg workDir ''output.mp4'';
                         job = renderJob cfg fontCopyPath overlayPng name outputPath
                     in case ffmpegRun env job of
                          FfmpegError message stderr \<Rightarrow>
                            Thrown (ffmpegRejectMessage v message stderr) (called (FfmpegSave job) st2)
                        | FfmpegEnd mp4 \<Rightarrow>
                            (let st3 = writeFile outputPath mp4 (called (FfmpegSave job) st2)
                             in Returned (Download outputPath ''My_Certificate.mp4'')
                                  (fsRemove cfg uploadedPath (fsRemove cfg workDir st3)))))))"

definition generateTry ::
  "source_file \<Rightarrow> config \<Rightarrow> env \<Rightarrow> string \<Rightarrow> request \<Rightarrow> state \<Rightarrow> outcome" where
  "generateTry v cfg env workDir req st =
     (let name = sanitizeName (nameRaw req)
      in case req_file req of
           None \<Rightarrow>
             Returned (Json 400 ''Photo is required (field name: photo)'') (fsRemove cfg workDir st)
         | Some f \<Rightarrow>
             if name = [] then
               Returned (Json 400 ''Name is required'') (fsRemove cfg workDir st)
             else if \<not> pathExists (TEMPLATE_VIDEO cfg) st then
               Returned (Json 500 ''Template video missing on server'') (fsRemove cfg workDir st)
             else if \<not> pathExists (FONT_FILE cfg) st then
               Returned (Json 500 ''Font file missing on server'') (fsRemove cfg workDir st)
             else buildAndRender v cfg env workDir name (file_path f) st)"

text \<open>
  The whole handler: the workspace is created, the \<^verbatim>\<open>try\<close> block runs, and the
  \<^verbatim>\<open>catch\<close> block removes the workspace and answers 500 with \<^verbatim>\<open>err.message || 'Server error'\<close>.
  The result is the response and the state once the request is over (for a download, after
  the callback of \<^verbatim>\<open>res.download\<close> has run).
\<close>

definition workDirOf :: "config \<Rightarrow> string \<Rightarrow> string" where
  "workDirOf cfg requestId = pathJoin cfg (tmpDirRoot cfg) requestId"

definition generate ::
  "source_file \<Rightarrow> config \<Rightarrow> env \<Rightarrow> string \<Rightarrow> request \<Rightarrow> state \<Rightarrow> response \<times> state" where
  "generate v cfg env requestId req st =
     (let workDir = workDirOf cfg requestId in
      case generateTry v cfg env workDir req (ensureDir workDir st) of
        Returned res st' \<Rightarrow> (res, st')
      | Thrown message st' \<Rightarrow>
          (Json 500 (orElse (Some message) ''Server error''), fsRemove cfg workDir st'))"

subsection \<open>Reading the quoted text back\<close>

text \<open>
  The escaping writes a backslash before a quote, so it presupposes a reader for which,
  inside a quoted text, a backslash makes the next character literal and a bare quote ends
  the text. \<open>quotedText\<close> is that reader, started just after the opening quote: it yields the
  text read and what follows the closing quote, or nothing when the text is never closed.
  It is the reading under which the escaping of the handler would be right, not the reader
  of ffmpeg, which is outside the repository and takes every character up to the next quote
  literally; what is shown with \<open>quotedText\<close> is shown about the escaping, under its own
  reading.
\<close>

fun quotedText :: "string \<Rightarrow> (string \<times> string) option" where
  "quotedText [] = None"
| "quotedText (c # cs) =
     (if c = quote then Some ([], cs)
      else if c = backslash then
        (case cs of
           [] \<Rightarrow> None
         | d # ds \<Rightarrow> map_option (\<lambda>(t, r). (d # t, r)) (quotedText ds))
      else map_option (\<lambda>(t, r). (c # t, r)) (quotedText cs))"

subsection \<open>What the image pipeline produces\<close>

text \<open>
  The pictures themselves are drawn by sharp and its SVG renderer, outside the repository.
  Two rules of theirs are needed to read what the handler passes. The first is SVG's: a
  stroke is centred on the outline, so a circle of radius \<open>r\<close> stroked with width \<open>w\<close>
  covers the ring from \<open>r - w/2\<close> to \<open>r + w/2\<close>.
\<close>

definition strokeInnerRadius :: "nat \<Rightarrow> nat \<Rightarrow> rat" where
  "strokeInnerRadius r w = of_nat r - of_nat w / 2"

definition strokeOuterRadius :: "nat \<Rightarrow> nat \<Rightarrow> rat" where
  "strokeOuterRadius r w = of_nat r + of_nat w / 2"

text \<open>
  The second is sharp's: what a job writes, as far as the job alone decides it. With a
  width, a height and the cover fit the output has exactly that size (the overflow is
  cropped); compositing layers gives the image an alpha channel whether or not the input had
  one; and the PNG encoder keeps the alpha channel of what it encodes. Other fits and other
  encoders are not described.
\<close>

record imageInfo =
  outFormat :: string
  outWidth :: nat
  outHeight :: nat
  outHasAlpha :: bool

definition outputInfo :: "sharpJob \<Rightarrow> bool \<Rightarrow> imageInfo option" where
  "outputInfo job inputHasAlpha =
     (if resizeFit job = ''cover'' \<and> encoder job = ''png'' then
        Some \<lparr>outFormat = ''png'', outWidth = resizeWidth job, outHeight = resizeHeight job,
              outHasAlpha = (inputHasAlpha \<or> composite job \<noteq> [])\<rparr>
      else None)"

subsection \<open>A deployment to run requests on\<close>

definition exampleConfig :: config where
  "exampleConfig =
     \<lparr>sep = CHR ''/'', tmpDirRoot = ''/tmp/work'',
      TEMPLATE_VIDEO = ''/var/task/media/certificate_vid_mu.mp4'',
      FONT_FILE = ''/var/task/media/Montserrat-Bold.ttf''\<rparr>"

text \<open>The disk when the handler starts: the two assets, and the upload multer has stored.\<close>

definition exampleDisk :: "bytes \<Rightarrow> state" where
  "exampleDisk photo =
     \<lparr>files = [''/var/task/media/certificate_vid_mu.mp4'' \<mapsto> File [0, 0, 0, 32],
               ''/var/task/media/Montserrat-Bold.ttf'' \<mapsto> File [0, 1, 0, 0],
               ''/tmp/uploads/u1.jpg'' \<mapsto> File photo],
      calls = []\<rparr>"

text \<open>Two broken deployments: one without both assets, one without the font only.\<close>

definition diskWithoutAssets :: "bytes \<Rightarrow> state" where
  "diskWithoutAssets photo = \<lparr>files = [''/tmp/uploads/u1.jpg'' \<mapsto> File photo], calls = []\<rparr>"

definition diskWithoutFont :: "bytes \<Rightarrow> state" where
  "diskWithoutFont photo =
     \<lparr>files = [''/var/task/media/certificate_vid_mu.mp4'' \<mapsto> File [0, 0, 0, 32],
               ''/tmp/uploads/u1.jpg'' \<mapsto> File photo],
      calls = []\<rparr>"

definition jpegBytes :: bytes where
  "jpegBytes = [255, 216, 255, 224]"

definition pngBytes :: bytes where
  "pngBytes = [137, 80, 78, 71]"

definition mp4Bytes :: bytes where
  "mp4Bytes = [0, 0, 0, 24]"

text \<open>A sharp that decodes JPEG input only, and an ffmpeg that succeeds.\<close>

definition exampleSharp :: "sharpJob \<Rightarrow> bytes \<Rightarrow> string + bytes" where
  "exampleSharp job b =
     (if b = [] then Inl ''Input Buffer is empty''
      else if take 2 b = [255, 216] then Inr pngBytes
      else Inl ''Input buffer contains unsupported image format'')"

definition exampleEngines :: env where
  "exampleEngines = \<lparr>sharpRun = exampleSharp, ffmpegRun = (\<lambda>job. FfmpegEnd mp4Bytes)\<rparr>"

text \<open>The same sharp with an ffmpeg that exits with an error and has written to stderr.\<close>

definition failingRender :: env where
  "failingRender =
     \<lparr>sharpRun = exampleSharp,
      ffmpegRun = (\<lambda>job. FfmpegError ''ffmpeg exited with code 1''
                           (Some ''No such filter: drawtext''))\<rparr>"

definition exampleRequest :: "string option \<Rightarrow> request" where
  "exampleRequest name =
     \<lparr>body_name = name, req_file = Some \<lparr>file_path = ''/tmp/uploads/u1.jpg''\<rparr>\<rparr>"

definition noPhotoRequest :: "string option \<Rightarrow> request" where
  "noPhotoRequest name = \<lparr>body_name = name, req_file = None\<rparr>"

section \<open>Properties of the string operations\<close>

lemma toUpperCaseChar_idem: "toUpperCaseChar (toUpperCaseChar c) = toUpperCaseChar c"
  by (simp add: toUpperCaseChar_def)

lemma isWhiteSpace_toUpperCaseChar: "isWhiteSpace (toUpperCaseChar c) = isWhiteSpace c"
  by (simp add: toUpperCaseChar_def isWhiteSpace_def)

lemma toUpperCaseChar_colon: "toUpperCaseChar c = CHR '':'' \<longleftrightarrow> c = CHR '':''"
  by (simp add: toUpperCaseChar_def)

lemma toUpperCaseChar_dquote: "toUpperCaseChar c = dquote \<longleftrightarrow> c = dquote"
  by (simp add: toUpperCaseChar_def dquote_def)

lemma set_trim: "set (trim s) \<subseteq> set s"
proof -
  have "set (trim s) \<subseteq> set (dropWhile isWhiteSpace s)"
    unfolding trim_def using set_dropWhileD [of _ isWhiteSpace "rev (dropWhile isWhiteSpace s)"] by auto
  also have "\<dots> \<subseteq> set s"
    using set_dropWhileD [of _ isWhiteSpace s] by auto
  finally show ?thesis .
qed

lemma toUpperCase_fixed:
  assumes "set y \<subseteq> set (toUpperCase s)"
  shows "toUpperCase y = y"
proof -
  have "toUpperCaseChar c = c" if "c \<in> set y" for c
  proof -
    from that assms obtain d where "c = toUpperCaseChar d"
      by (auto simp: toUpperCase_def)
    then show ?thesis by (simp add: toUpperCaseChar_idem)
  qed
  then show ?thesis by (simp add: toUpperCase_def map_idI)
qed

lemma set_sanitizeForDrawText: "set (sanitizeForDrawText s) = set s - {CHR '':'', dquote}"
  by (auto simp: sanitizeForDrawText_def)

lemma sanitizeForDrawText_clean:
  "CHR '':'' \<notin> set s \<Longrightarrow> dquote \<notin> set s \<Longrightarrow> sanitizeForDrawText s = s"
  by (auto simp: sanitizeForDrawText_def filter_id_conv) 

lemma dropWhile_fixed: "xs = [] \<or> \<not> P (hd xs) \<Longrightarrow> dropWhile P xs = xs"
  by (cases xs) auto

lemma dropWhile_snoc_keep: "\<not> P x \<Longrightarrow> \<exists>zs. dropWhile P (ys @ [x]) = zs @ [x]"
  by (induction ys) auto

lemma dropWhileEnd_keeps_hd:
  assumes "\<not> P x"
  shows "\<exists>zs. rev (dropWhile P (rev (x # t))) = x # zs"
proof -
  from assms dropWhile_snoc_keep [of P x "rev t"]
  obtain zs where "dropWhile P (rev t @ [x]) = zs @ [x]" by blast
  then show ?thesis by simp
qed

lemma trim_no_leading: "trim s = [] \<or> \<not> isWhiteSpace (hd (trim s))"
proof (cases "dropWhile isWhiteSpace s")
  case Nil
  show ?thesis unfolding trim_def Nil by simp
next
  case (Cons x t)
  then have "\<not> isWhiteSpace x"
    using hd_dropWhile [of isWhiteSpace s] by simp
  with dropWhileEnd_keeps_hd [of isWhiteSpace x t] Cons show ?thesis
    by (auto simp: trim_def)
qed

lemma trim_no_trailing: "trim s = [] \<or> \<not> isWhiteSpace (last (trim s))"
proof -
  let ?r = "dropWhile isWhiteSpace (rev (dropWhile isWhiteSpace s))"
  have "?r = [] \<or> \<not> isWhiteSpace (hd ?r)"
    using hd_dropWhile [of isWhiteSpace "rev (dropWhile isWhiteSpace s)"] by blast
  then show ?thesis
    by (auto simp: trim_def last_rev)
qed

lemma trim_fixed:
  assumes "s = [] \<or> (\<not> isWhiteSpace (hd s) \<and> \<not> isWhiteSpace (last s))"
  shows "trim s = s"
proof (cases "s = []")
  case True
  then show ?thesis by (simp add: trim_def)
next
  case False
  with assms have h: "\<not> isWhiteSpace (hd s)" and l: "\<not> isWhiteSpace (last s)" by auto
  from h False have 1: "dropWhile isWhiteSpace s = s" by (simp add: dropWhile_fixed)
  from l False have "dropWhile isWhiteSpace (rev s) = rev s"
    by (intro dropWhile_fixed) (simp add: hd_rev)
  with 1 show ?thesis by (simp add: trim_def)
qed

lemma trim_idem: "trim (trim s) = trim s"
  using trim_no_leading [of s] trim_no_trailing [of s] by (intro trim_fixed) auto

lemma sanitizeForDrawText_idem: "sanitizeForDrawText (sanitizeForDrawText s) = sanitizeForDrawText s"
  by (rule sanitizeForDrawText_clean) (simp_all add: set_sanitizeForDrawText)

lemma sanitizeName_twice: "sanitizeName (sanitizeName s) = trim (sanitizeName s)"
proof -
  have up: "toUpperCase (sanitizeName s) = sanitizeName s"
    by (rule toUpperCase_fixed)
      (use set_trim [of "toUpperCase s"] in \<open>auto simp: sanitizeName_def set_sanitizeForDrawText\<close>)
  have "CHR '':'' \<notin> set (trim (sanitizeName s))" "dquote \<notin> set (trim (sanitizeName s))"
    using set_trim [of "sanitizeName s"] by (auto simp: sanitizeName_def set_sanitizeForDrawText)
  then have "sanitizeForDrawText (trim (sanitizeName s)) = trim (sanitizeName s)"
    by (rule sanitizeForDrawText_clean)
  then show ?thesis
    by (simp add: sanitizeName_def [of "sanitizeName s"] up)
qed

lemma ascii_Nil [simp]: "ascii []"
  by (simp add: ascii_def)

lemma ascii_Cons [simp]: "ascii (c # s) \<longleftrightarrow> of_char c < (128::nat) \<and> ascii s"
  by (simp add: ascii_def)

lemma ascii_iff: "ascii s \<longleftrightarrow> (\<forall>c \<in> set s. of_char c < (128::nat))"
  by (simp add: ascii_def list_all_iff)

lemma ascii_subset: "set t \<subseteq> set s \<Longrightarrow> ascii s \<Longrightarrow> ascii t"
  by (auto simp: ascii_iff)

lemma ascii_toUpperCaseChar: "of_char c < (128::nat) \<Longrightarrow> of_char (toUpperCaseChar c) < (128::nat)"
  by (simp add: toUpperCaseChar_def)

lemma ascii_toUpperCase: "ascii s \<Longrightarrow> ascii (toUpperCase s)"
  by (induction s) (simp_all add: toUpperCase_def ascii_toUpperCaseChar)

lemma ascii_sanitizeName: "ascii s \<Longrightarrow> ascii (sanitizeName s)"
proof -
  assume "ascii s"
  then have "ascii (toUpperCase s)" by (rule ascii_toUpperCase)
  moreover have "set (sanitizeName s) \<subseteq> set (toUpperCase s)"
    using set_trim [of "toUpperCase s"] by (auto simp: sanitizeName_def set_sanitizeForDrawText)
  ultimately show ?thesis using ascii_subset by blast
qed

section \<open>Properties of the file system and of the handler\<close>

lemma inside_pathJoin: "inside cfg d (pathJoin cfg d x)"
  by (simp add: inside_def pathJoin_def)

lemma inside_self: "inside cfg d d"
  by (simp add: inside_def)

lemma files_called [simp]: "files (called c st) = files st"
  by (simp add: called_def)

lemma calls_called [simp]: "calls (called c st) = calls st @ [c]"
  by (simp add: called_def)

lemma files_writeFile [simp]: "files (writeFile p b st) q = (if q = p then Some (File b) else files st q)"
  by (simp add: writeFile_def)

lemma calls_writeFile [simp]: "calls (writeFile p b st) = calls st"
  by (simp add: writeFile_def)

lemma files_fsRemove [simp]: "files (fsRemove cfg d st) p = (if inside cfg d p then None else files st p)"
  by (simp add: fsRemove_def)

lemma calls_fsRemove [simp]: "calls (fsRemove cfg d st) = calls st"
  by (simp add: fsRemove_def)

lemma fsCopy_Inr:
  "fsCopy src dst st = Inr st' \<Longrightarrow> calls st' = calls st \<and> (\<forall>q. q \<noteq> dst \<longrightarrow> files st' q = files st q)"
  by (auto simp: fsCopy_def split: option.splits)

lemma files_ensureDir: "files st p \<noteq> None \<Longrightarrow> files (ensureDir d st) p = files st p"
  by (auto simp: ensureDir_def pathExists_def)

lemma files_ensureDir_other: "p \<noteq> d \<Longrightarrow> files (ensureDir d st) p = files st p"
  by (simp add: ensureDir_def pathExists_def)

lemma calls_ensureDir [simp]: "calls (ensureDir d st) = calls st"
  by (simp add: ensureDir_def)

lemma buildAndRender_Thrown:
  assumes "buildAndRender v cfg env workDir name up st = Thrown e st'"
    and "\<not> inside cfg workDir p"
  shows "files st' p = files st p"
proof -
  from assms(2) have ne: "p \<noteq> pathJoin cfg workDir x" for x
    using inside_pathJoin by metis
  show ?thesis
    using assms(1) ne
    unfolding buildAndRender_def Let_def
    by (auto split: sum.splits ffmpegResult.splits dest!: fsCopy_Inr)
qed

lemma buildAndRender_Returned:
  assumes "buildAndRender v cfg env workDir name up st = Returned res st'"
  shows "res = Download (pathJoin cfg workDir ''output.mp4'') ''My_Certificate.mp4''
         \<and> (\<forall>p. inside cfg workDir p \<or> inside cfg up p \<longrightarrow> files st' p = None)"
  using assms unfolding buildAndRender_def Let_def
  by (auto split: sum.splits ffmpegResult.splits)

lemma ffmpegRejectMessage_nonempty: "ffmpegRejectMessage v message stderr \<noteq> []"
  by (cases v) auto

lemma buildAndRender_calls:
  "\<exists>cs. calls (stateOf (buildAndRender v cfg env workDir name up st))
        = calls st @ FsCopy (FONT_FILE cfg) (pathJoin cfg workDir ''Montserrat-Bold.ttf'') # cs"
  unfolding buildAndRender_def Let_def
  by (auto split: sum.splits ffmpegResult.splits dest!: fsCopy_Inr)

lemma generateTry_Returned:
  assumes "generateTry v cfg env workDir req st = Returned res st'"
    and "inside cfg workDir p"
  shows "files st' p = None"
  using assms unfolding generateTry_def Let_def
  by (auto split: option.splits if_splits dest!: buildAndRender_Returned)

lemma workspace_removed:
  assumes "inside cfg (workDirOf cfg requestId) p"
  shows "files (snd (generate v cfg env requestId req st)) p = None"
  using assms unfolding generate_def Let_def
  by (auto split: outcome.splits dest: generateTry_Returned)

lemma generateTry_Thrown:
  assumes "generateTry v cfg env workDir req st = Thrown e st'"
    and "\<not> inside cfg workDir p"
  shows "files st' p = files st p"
  using assms unfolding generateTry_def Let_def
  by (auto split: option.splits if_splits dest: buildAndRender_Thrown)

lemma generateTry_Json:
  assumes "generateTry v cfg env workDir req st = Returned (Json code m) st'"
  shows "st' = fsRemove cfg workDir st"
  using assms unfolding generateTry_def Let_def
  by (auto split: option.splits if_splits dest: buildAndRender_Returned)

lemma upload_kept_on_error:
  assumes "fst (generate v cfg env requestId req st) = Json code m"
    and "\<not> inside cfg (workDirOf cfg requestId) p"
  shows "files (snd (generate v cfg env requestId req st)) p = files st p"
proof -
  let ?w = "workDirOf cfg requestId"
  from assms(2) have "p \<noteq> ?w" using inside_self by metis
  then have e: "files (ensureDir ?w st) p = files st p"
    by (rule files_ensureDir_other)
  show ?thesis
  proof (cases "generateTry v cfg env ?w req (ensureDir ?w st)")
    case (Returned res st')
    with assms(1) have "res = Json code m" by (simp add: generate_def Let_def)
    with Returned have "st' = fsRemove cfg ?w (ensureDir ?w st)"
      using generateTry_Json by blast
    with Returned assms(2) e show ?thesis by (simp add: generate_def Let_def)
  next
    case (Thrown err st')
    with assms(2) have "files st' p = files (ensureDir ?w st) p"
      using generateTry_Thrown by blast
    with Thrown assms(2) e show ?thesis by (simp add: generate_def Let_def)
  qed
qed

lemma set_toUpperCase_colon: "CHR '':'' \<in> set (toUpperCase s) \<longleftrightarrow> CHR '':'' \<in> set s"
proof (induction s)
  case Nil
  then show ?case by (simp add: toUpperCase_def)
next
  case (Cons c s)
  then show ?case
    using toUpperCaseChar_colon [of c] by (auto simp: toUpperCase_def)
qed

lemma set_toUpperCase_dquote: "dquote \<in> set (toUpperCase s) \<longleftrightarrow> dquote \<in> set s"
proof (induction s)
  case Nil
  then show ?case by (simp add: toUpperCase_def)
next
  case (Cons c s)
  then show ?case
    using toUpperCaseChar_dquote [of c] by (auto simp: toUpperCase_def)
qed

lemma sanitizeName_only_stripped:
  assumes "set s \<subseteq> {CHR '':'', dquote}"
  shows "sanitizeName s = []"
proof -
  have "toUpperCaseChar c = c" if "c \<in> set s" for c
  proof -
    from that assms have "c = CHR '':'' \<or> c = dquote" by blast
    then show ?thesis
      using toUpperCaseChar_colon [of c] toUpperCaseChar_dquote [of c] by auto
  qed
  then have "toUpperCase s = s"
    by (simp add: toUpperCase_def map_idI)
  then have "set (sanitizeName s) \<subseteq> set s - {CHR '':'', dquote}"
    using set_trim [of s] by (auto simp: sanitizeName_def set_sanitizeForDrawText)
  moreover from assms have "set s - {CHR '':'', dquote} = {}"
    by (simp only: Diff_eq_empty_iff)
  ultimately have "set (sanitizeName s) = {}"
    by (simp only: subset_empty)
  then show ?thesis by simp
qed

lemma generate_no_photo:
  "req_file req = None \<Longrightarrow>
   generate v cfg env requestId req st
     = (Json 400 ''Photo is required (field name: photo)'',
        fsRemove cfg (workDirOf cfg requestId) (ensureDir (workDirOf cfg requestId) st))"
  by (simp add: generate_def generateTry_def Let_def)

lemma generate_no_name:
  "req_file req = Some f \<Longrightarrow> sanitizeName (nameRaw req) = [] \<Longrightarrow>
   generate v cfg env requestId req st
     = (Json 400 ''Name is required'',
        fsRemove cfg (workDirOf cfg requestId) (ensureDir (workDirOf cfg requestId) st))"
  by (simp add: generate_def generateTry_def Let_def)

lemma calls_generate:
  "calls (snd (generate v cfg env requestId req st))
     = calls (stateOf (generateTry v cfg env (workDirOf cfg requestId) req
                (ensureDir (workDirOf cfg requestId) st)))"
  by (simp add: generate_def Let_def split: outcome.splits)

lemma generateTry_valid:
  assumes "req_file req = Some f" "sanitizeName (nameRaw req) \<noteq> []"
    "pathExists (TEMPLATE_VIDEO cfg) st" "pathExists (FONT_FILE cfg) st"
  shows "generateTry v cfg env workDir req st
           = buildAndRender v cfg env workDir (sanitizeName (nameRaw req)) (file_path f) st"
  using assms by (simp add: generateTry_def Let_def)

lemma generateTry_calls_cases:
  "calls (stateOf (generateTry v cfg env workDir req st)) = calls st
   \<or> (\<exists>f. req_file req = Some f \<and> sanitizeName (nameRaw req) \<noteq> []
          \<and> pathExists (TEMPLATE_VIDEO cfg) st \<and> pathExists (FONT_FILE cfg) st
          \<and> generateTry v cfg env workDir req st
               = buildAndRender v cfg env workDir (sanitizeName (nameRaw req)) (file_path f) st)"
  by (cases "req_file req") (auto simp: generateTry_def Let_def)

lemma buildAndRender_ffmpeg_job:
  assumes "FfmpegSave job \<in> set (calls (stateOf (buildAndRender v cfg env workDir name up st)))"
    and "FfmpegSave job \<notin> set (calls st)"
  shows "job = renderJob cfg (pathJoin cfg workDir ''Montserrat-Bold.ttf'')
                 (pathJoin cfg workDir ''overlay_600.png'') name (pathJoin cfg workDir ''output.mp4'')"
  using assms unfolding buildAndRender_def Let_def
  by (auto split: sum.splits ffmpegResult.splits dest!: fsCopy_Inr)

lemma buildAndRender_ffmpeg_error:
  assumes "FfmpegSave job \<in> set (calls (stateOf (buildAndRender v cfg env workDir name up st)))"
    and "FfmpegSave job \<notin> set (calls st)"
    and "ffmpegRun env job = FfmpegError message stderr"
  shows "\<exists>st'. buildAndRender v cfg env workDir name up st
                 = Thrown (ffmpegRejectMessage v message stderr) st'"
proof -
  note j = buildAndRender_ffmpeg_job [OF assms(1,2)]
  show ?thesis
    using assms(1,2) assms(3) [unfolded j] unfolding buildAndRender_def Let_def
    by (auto split: sum.splits ffmpegResult.splits dest!: fsCopy_Inr)
qed

lemma buildAndRender_sharp_job:
  assumes "SharpToFile job \<in> set (calls (stateOf (buildAndRender v cfg env workDir name up st)))"
    and "SharpToFile job \<notin> set (calls st)"
  shows "job = overlayJob (pathJoin cfg workDir ''overlay_600.png'')"
  using assms unfolding buildAndRender_def Let_def
  by (auto split: sum.splits ffmpegResult.splits dest!: fsCopy_Inr)

lemma generate_ffmpeg_job:
  assumes "calls st = []"
    and "FfmpegSave job \<in> set (calls (snd (generate v cfg env requestId req st)))"
  shows "job = renderJob cfg (pathJoin cfg (workDirOf cfg requestId) ''Montserrat-Bold.ttf'')
                 (pathJoin cfg (workDirOf cfg requestId) ''overlay_600.png'')
                 (sanitizeName (nameRaw req))
                 (pathJoin cfg (workDirOf cfg requestId) ''output.mp4'')"
proof -
  let ?w = "workDirOf cfg requestId"
  let ?st = "ensureDir ?w st"
  from assms(1) have no: "FfmpegSave job \<notin> set (calls ?st)" by simp
  from assms(2) have mem: "FfmpegSave job \<in> set (calls (stateOf (generateTry v cfg env ?w req ?st)))"
    by (simp add: calls_generate)
  with no generateTry_calls_cases [of v cfg env ?w req ?st]
  obtain f :: upload where "generateTry v cfg env ?w req ?st
      = buildAndRender v cfg env ?w (sanitizeName (nameRaw req)) (file_path f) ?st"
    by auto
  with mem no show ?thesis
    using buildAndRender_ffmpeg_job by metis
qed

lemma generate_sharp_job:
  assumes "calls st = []"
    and "SharpToFile job \<in> set (calls (snd (generate v cfg env requestId req st)))"
  shows "job = overlayJob (pathJoin cfg (workDirOf cfg requestId) ''overlay_600.png'')"
proof -
  let ?w = "workDirOf cfg requestId"
  let ?st = "ensureDir ?w st"
  from assms(1) have no: "SharpToFile job \<notin> set (calls ?st)" by simp
  from assms(2) have mem: "SharpToFile job \<in> set (calls (stateOf (generateTry v cfg env ?w req ?st)))"
    by (simp add: calls_generate)
  with no generateTry_calls_cases [of v cfg env ?w req ?st]
  obtain f :: upload where "generateTry v cfg env ?w req ?st
      = buildAndRender v cfg env ?w (sanitizeName (nameRaw req)) (file_path f) ?st"
    by auto
  with mem no show ?thesis
    using buildAndRender_sharp_job by metis
qed

lemma generate_no_template:
  "req_file req = Some f \<Longrightarrow> sanitizeName (nameRaw req) \<noteq> [] \<Longrightarrow>
   \<not> pathExists (TEMPLATE_VIDEO cfg) (ensureDir (workDirOf cfg requestId) st) \<Longrightarrow>
   generate v cfg env requestId req st
     = (Json 500 ''Template video missing on server'',
        fsRemove cfg (workDirOf cfg requestId) (ensureDir (workDirOf cfg requestId) st))"
  by (simp add: generate_def generateTry_def Let_def)

lemma generate_no_font:
  "req_file req = Some f \<Longrightarrow> sanitizeName (nameRaw req) \<noteq> [] \<Longrightarrow>
   pathExists (TEMPLATE_VIDEO cfg) (ensureDir (workDirOf cfg requestId) st) \<Longrightarrow>
   \<not> pathExists (FONT_FILE cfg) (ensureDir (workDirOf cfg requestId) st) \<Longrightarrow>
   generate v cfg env requestId req st
     = (Json 500 ''Font file missing on server'',
        fsRemove cfg (workDirOf cfg requestId) (ensureDir (workDirOf cfg requestId) st))"
  by (simp add: generate_def generateTry_def Let_def)

section \<open>Properties of the escaping and of the texts handed to the engines\<close>

lemma replaceAll_Nil [simp]: "replaceAll c r [] = []"
  by (simp add: replaceAll_def)

lemma replaceAll_Cons [simp]:
  "replaceAll c r (x # xs) = (if x = c then r else [x]) @ replaceAll c r xs"
  by (simp add: replaceAll_def)

lemma replaceAll_append: "replaceAll c r (xs @ ys) = replaceAll c r xs @ replaceAll c r ys"
  by (simp add: replaceAll_def)

lemma special_chars_distinct:
  "backslash \<noteq> quote" "quote \<noteq> backslash" "CHR '':'' \<noteq> quote" "CHR '':'' \<noteq> backslash"
  "quote \<noteq> CHR '':''" "backslash \<noteq> CHR '':''" "CHR ''/'' \<noteq> backslash"
  "backslash \<noteq> CHR ''/''"
  by (simp_all add: backslash_def quote_def)

text \<open>
  Under the reading that the escaping presupposes (\<open>quotedText\<close>), a name without a
  backslash and every font path are read back as they were, so the backslash is the one case
  that the escaping misses under its own reading. These lemmas are about that reading only:
  a reader that ends a quoted text at the next quote, escaped or not, cuts every name that
  contains a quote.
\<close>

lemma quotedText_safeName:
  "backslash \<notin> set name \<Longrightarrow> quotedText (safeName name @ quote # rest) = Some (name, rest)"
  unfolding safeName_def
  by (induction name) (auto simp: special_chars_distinct)

lemma quotedText_escaped:
  "backslash \<notin> set s \<Longrightarrow>
   quotedText (replaceAll quote [backslash, quote] (replaceAll (CHR '':'') [backslash, CHR '':''] s)
                 @ quote # rest) = Some (s, rest)"
  by (induction s) (auto simp: special_chars_distinct)

lemma fontPathForFF_no_backslash: "backslash \<notin> set (fontPathForFF p)"
  unfolding fontPathForFF_def
  by (induction p) (auto simp: special_chars_distinct)

lemma quotedText_fontPath:
  "quotedText (fontPathEscapedForFilter p @ quote # rest) = Some (fontPathForFF p, rest)"
  unfolding fontPathEscapedForFilter_def
  by (rule quotedText_escaped) (rule fontPathForFF_no_backslash)

lemma showNat_values:
  "showNat 1240 = ''1240''" "showNat 1748 = ''1748''" "showNat 320 = ''320''" "showNat 125 = ''125''"
  "showNat 600 = ''600''" "showNat 300 = ''300''" "showNat 295 = ''295''" "showNat 10 = ''10''"
  by (simp_all add: showNat.simps digitChar_def)

lemma filterComplex_text:
  "filterComplex fontCopyPath name
     = ''[0:v]scale=1240:1748:force_original_aspect_ratio=decrease,''
       @ ''pad=1240:1748:(ow-iw)/2:(oh-ih)/2:black,setsar=1[base];''
       @ ''[1:v]format=rgba[ovr];''
       @ ''[base][ovr]overlay=320:125:format=auto[tmp];''
       @ ''[tmp]drawtext=fontfile='' @ [quote] @ fontPathEscapedForFilter fontCopyPath @ [quote]
       @ '':text='' @ [quote] @ safeName name @ [quote]
       @ '':fontcolor=#274245:fontsize=70:x=620-text_w/2:y=820''
       @ '',format=yuv420p[v]''"
  by (simp add: filterComplex_def drawText_def CANVAS_W_def CANVAS_H_def overlayX_def overlayY_def
      showNat_values)

lemma circleSvg_text:
  "circleSvg =
     [newline] @ ''      <svg width=\"600\" height=\"600\" xmlns=\"http://www.w3.org/2000/svg\">'' @
     [newline] @ ''        <circle cx=\"300\" cy=\"300\" r=\"300\" fill=\"#fff\"/>'' @
     [newline] @ ''      </svg>''"
  by (simp add: circleSvg_def targetSize_def showNat_values)

lemma borderSvg_text:
  "borderSvg =
     [newline] @ ''      <svg width=\"600\" height=\"600\" xmlns=\"http://www.w3.org/2000/svg\">'' @
     [newline] @ ''        <circle cx=\"300\" cy=\"300\" r=\"295\"'' @
     [newline] @ ''          fill=\"none\" stroke=\"#ff9933\" stroke-width=\"10\"/>'' @
     [newline] @ ''      </svg>''"
  by (simp add: borderSvg_def targetSize_def borderRadius_def borderStrokeWidth_def showNat_values)

section \<open>Running the handler on the example deployment\<close>

lemmas run_defs = generate_def generateTry_def buildAndRender_def workDirOf_def pathJoin_def
  exampleConfig_def exampleDisk_def exampleEngines_def exampleSharp_def failingRender_def
  exampleRequest_def noPhotoRequest_def diskWithoutAssets_def diskWithoutFont_def
  ensureDir_def pathExists_def fsRemove_def inside_def writeFile_def fsCopy_def readFile_def
  called_def nameRaw_def sanitizeName_def sanitizeForDrawText_def trim_def toUpperCase_def
  toUpperCaseChar_def isWhiteSpace_def jpegBytes_def pngBytes_def mp4Bytes_def
  dquote_def quote_def backslash_def Let_def

section \<open>The claims\<close>

subsection \<open>C1: nothing is left on disk after a failed request\<close>

text \<open>
  C1 (code defect). The claim: whenever the generate operation fails, the workspace is
  destroyed and neither the workspace nor the uploaded photo remains on disk when the error
  response is produced. The workspace half holds on every path (\<open>workspace_removed\<close>).
  The upload half does not: only the callback of \<^verbatim>\<open>res.download\<close> removes the upload, and
  no error path does (\<open>upload_kept_on_error\<close>). Below, a request with a photo and no name is
  answered 400 with the workspace gone and the upload still on disk; the same holds when the
  render fails and the \<^verbatim>\<open>catch\<close> block answers 500.
\<close>

theorem C1_upload_left_on_disk:
  "fst (generate v exampleConfig exampleEngines ''r1'' (exampleRequest None) (exampleDisk jpegBytes))
     = Json 400 ''Name is required''
   \<and> files (snd (generate v exampleConfig exampleEngines ''r1'' (exampleRequest None)
         (exampleDisk jpegBytes))) ''/tmp/work/r1'' = None
   \<and> files (snd (generate v exampleConfig exampleEngines ''r1'' (exampleRequest None)
         (exampleDisk jpegBytes))) ''/tmp/uploads/u1.jpg'' = Some (File jpegBytes)
   \<and> fst (generate ApiIndex exampleConfig failingRender ''r1'' (exampleRequest (Some ''Jane Doe''))
         (exampleDisk jpegBytes)) = Json 500 ''ffmpeg error: No such filter: drawtext''
   \<and> files (snd (generate ApiIndex exampleConfig failingRender ''r1'' (exampleRequest (Some ''Jane Doe''))
         (exampleDisk jpegBytes))) ''/tmp/uploads/u1.jpg'' = Some (File jpegBytes)"
  by (simp add: run_defs)

subsection \<open>C2: what the caller sees when the render fails\<close>

text \<open>
  C2 (corrected). The claim: when the render engine fails, the caller gets a 500 error with
  a generic message, and the engine's stderr stays on the server. The status is 500, but
  the message is built from the diagnostics: the error callback rejects with the collected
  stderr (or \<^verbatim>\<open>err.message\<close> when stderr is empty), prefixed with \<^verbatim>\<open>ffmpeg error: \<close> in
  \<^verbatim>\<open>api/index.js\<close> and bare in the second copy, and the \<^verbatim>\<open>catch\<close> block sends that message
  in the response body. Stated for any request that got as far as running the engine on a
  job on which the engine fails.
\<close>

theorem C2_render_error_message:
  assumes "calls st = []"
    and "FfmpegSave job \<in> set (calls (snd (generate v cfg env requestId req st)))"
    and "ffmpegRun env job = FfmpegError message stderr"
  shows "fst (generate v cfg env requestId req st) = Json 500 (ffmpegRejectMessage v message stderr)
         \<and> (stderr = Some e \<and> e \<noteq> [] \<longrightarrow>
               ffmpegRejectMessage v message stderr
                 = (case v of ApiIndex \<Rightarrow> ''ffmpeg error: '' @ e | SecondCopy \<Rightarrow> e))"
proof
  let ?w = "workDirOf cfg requestId"
  let ?st = "ensureDir ?w st"
  from assms(1) have no: "FfmpegSave job \<notin> set (calls ?st)" by simp
  from assms(2) have mem: "FfmpegSave job \<in> set (calls (stateOf (generateTry v cfg env ?w req ?st)))"
    by (simp add: calls_generate)
  with no generateTry_calls_cases [of v cfg env ?w req ?st]
  obtain f :: upload where "generateTry v cfg env ?w req ?st
      = buildAndRender v cfg env ?w (sanitizeName (nameRaw req)) (file_path f) ?st"
    by auto
  with mem no assms(3) obtain st' where
    "generateTry v cfg env ?w req ?st = Thrown (ffmpegRejectMessage v message stderr) st'"
    using buildAndRender_ffmpeg_error by metis
  then show "fst (generate v cfg env requestId req st) = Json 500 (ffmpegRejectMessage v message stderr)"
    by (simp add: generate_def Let_def ffmpegRejectMessage_nonempty)
  show "stderr = Some e \<and> e \<noteq> [] \<longrightarrow>
          ffmpegRejectMessage v message stderr
            = (case v of ApiIndex \<Rightarrow> ''ffmpeg error: '' @ e | SecondCopy \<Rightarrow> e)"
    by (cases v) auto
qed

theorem C2_render_error_message_witness:
  "calls (exampleDisk jpegBytes) = []
   \<and> FfmpegSave (renderJob exampleConfig ''/tmp/work/r1/Montserrat-Bold.ttf''
           ''/tmp/work/r1/overlay_600.png'' ''JANE DOE'' ''/tmp/work/r1/output.mp4'')
       \<in> set (calls (snd (generate SecondCopy exampleConfig failingRender ''r1''
           (exampleRequest (Some ''Jane Doe'')) (exampleDisk jpegBytes))))
   \<and> fst (generate SecondCopy exampleConfig failingRender ''r1''
           (exampleRequest (Some ''Jane Doe'')) (exampleDisk jpegBytes))
       = Json 500 ''No such filter: drawtext''"
proof -
  let ?job = "renderJob exampleConfig ''/tmp/work/r1/Montserrat-Bold.ttf''
           ''/tmp/work/r1/overlay_600.png'' ''JANE DOE'' ''/tmp/work/r1/output.mp4''"
  have a: "calls (exampleDisk jpegBytes) = []"
    by (simp add: exampleDisk_def)
  have b: "FfmpegSave ?job \<in> set (calls (snd (generate SecondCopy exampleConfig failingRender ''r1''
           (exampleRequest (Some ''Jane Doe'')) (exampleDisk jpegBytes))))"
    by (simp add: run_defs)
  have c: "ffmpegRun failingRender ?job
             = FfmpegError ''ffmpeg exited with code 1'' (Some ''No such filter: drawtext'')"
    by (simp add: failingRender_def)
  from C2_render_error_message [OF a b c, of "''No such filter: drawtext''"]
  have "fst (generate SecondCopy exampleConfig failingRender ''r1''
           (exampleRequest (Some ''Jane Doe'')) (exampleDisk jpegBytes))
       = Json 500 ''No such filter: drawtext''"
    by simp
  with a b show ?thesis by blast
qed

theorem C2_counterexample:
  "fst (generate ApiIndex exampleConfig failingRender ''r1'' (exampleRequest (Some ''Jane Doe''))
      (exampleDisk jpegBytes)) = Json 500 ''ffmpeg error: No such filter: drawtext''
   \<and> fst (generate SecondCopy exampleConfig failingRender ''r1'' (exampleRequest (Some ''Jane Doe''))
      (exampleDisk jpegBytes)) = Json 500 ''No such filter: drawtext''"
  by (simp add: run_defs)

subsection \<open>C3: a photo that cannot be decoded\<close>

text \<open>
  C3 (corrected). The claim: a request whose photo bytes are not a decodable image fails with
  a 400-class error. The handler has one \<^verbatim>\<open>catch\<close> block and it answers 500 for everything
  thrown, the decoder's error included. What holds: for a request that passes validation, with
  the upload on disk outside the workspace, if sharp throws on the photo's bytes then the
  response is 500 with sharp's message (or \<^verbatim>\<open>Server error\<close> when that message is empty).
\<close>

theorem C3_decode_error_is_500:
  assumes "req_file req = Some f"
    and "files st (file_path f) = Some (File photoBytes)"
    and "\<not> inside cfg (workDirOf cfg requestId) (file_path f)"
    and "sanitizeName (nameRaw req) \<noteq> []"
    and "files st (TEMPLATE_VIDEO cfg) \<noteq> None"
    and "files st (FONT_FILE cfg) \<noteq> None"
    and "sharpRun env (overlayJob (pathJoin cfg (workDirOf cfg requestId) ''overlay_600.png''))
           photoBytes = Inl err"
  shows "fst (generate v cfg env requestId req st) = Json 500 (orElse (Some err) ''Server error'')"
proof -
  let ?w = "workDirOf cfg requestId"
  let ?st = "ensureDir ?w st"
  let ?fc = "pathJoin cfg ?w ''Montserrat-Bold.ttf''"
  have t: "pathExists (TEMPLATE_VIDEO cfg) ?st" and fo: "pathExists (FONT_FILE cfg) ?st"
    using assms(5,6) by (simp_all add: pathExists_def files_ensureDir)
  from assms(2) have up: "files ?st (file_path f) = Some (File photoBytes)"
    by (simp add: files_ensureDir)
  from assms(3) have ne: "file_path f \<noteq> ?fc"
    using inside_pathJoin by metis
  from fo obtain n where n: "files ?st (FONT_FILE cfg) = Some n"
    by (auto simp: pathExists_def)
  have "buildAndRender v cfg env ?w (sanitizeName (nameRaw req)) (file_path f) ?st
          = Thrown err (called (SharpToFile (overlayJob (pathJoin cfg ?w ''overlay_600.png'')))
              ((called (FsCopy (FONT_FILE cfg) ?fc) ?st)
                 \<lparr>files := (files ?st)(?fc \<mapsto> n)\<rparr>))"
    using n up ne assms(7)
    by (simp add: buildAndRender_def Let_def fsCopy_def readFile_def)
  with generateTry_valid [OF assms(1,4) t fo, of v env ?w]
  show ?thesis by (simp add: generate_def Let_def)
qed

theorem C3_decode_error_is_500_witness:
  "req_file (exampleRequest (Some ''Jane Doe'')) = Some \<lparr>file_path = ''/tmp/uploads/u1.jpg''\<rparr>
   \<and> files (exampleDisk [1, 2, 3]) ''/tmp/uploads/u1.jpg'' = Some (File [1, 2, 3])
   \<and> \<not> inside exampleConfig (workDirOf exampleConfig ''r1'') ''/tmp/uploads/u1.jpg''
   \<and> sanitizeName (nameRaw (exampleRequest (Some ''Jane Doe''))) \<noteq> []
   \<and> exampleSharp (overlayJob (pathJoin exampleConfig (workDirOf exampleConfig ''r1'') ''overlay_600.png''))
         [1, 2, 3] = Inl ''Input buffer contains unsupported image format''
   \<and> fst (generate SecondCopy exampleConfig exampleEngines ''r1'' (exampleRequest (Some ''Jane Doe''))
         (exampleDisk [1, 2, 3])) = Json 500 ''Input buffer contains unsupported image format''"
proof -
  let ?req = "exampleRequest (Some ''Jane Doe'')"
  let ?f = "\<lparr>file_path = ''/tmp/uploads/u1.jpg''\<rparr>"
  have a: "req_file ?req = Some ?f"
    by (simp add: exampleRequest_def)
  have b: "files (exampleDisk [1, 2, 3]) (file_path ?f) = Some (File [1, 2, 3])"
    by (simp add: exampleDisk_def)
  have c: "\<not> inside exampleConfig (workDirOf exampleConfig ''r1'') (file_path ?f)"
    by (simp add: inside_def workDirOf_def pathJoin_def exampleConfig_def)
  have d: "sanitizeName (nameRaw ?req) \<noteq> []"
    by (simp add: run_defs)
  have e: "files (exampleDisk [1, 2, 3]) (TEMPLATE_VIDEO exampleConfig) \<noteq> None"
    and f: "files (exampleDisk [1, 2, 3]) (FONT_FILE exampleConfig) \<noteq> None"
    by (simp_all add: exampleDisk_def exampleConfig_def)
  have g: "sharpRun exampleEngines
             (overlayJob (pathJoin exampleConfig (workDirOf exampleConfig ''r1'') ''overlay_600.png''))
             [1, 2, 3] = Inl ''Input buffer contains unsupported image format''"
    by (simp add: exampleEngines_def exampleSharp_def)
  from C3_decode_error_is_500 [OF a b c d e f g, of SecondCopy]
  have "fst (generate SecondCopy exampleConfig exampleEngines ''r1'' ?req (exampleDisk [1, 2, 3]))
          = Json 500 ''Input buffer contains unsupported image format''"
    by simp
  with a b c d g show ?thesis
    by (simp add: exampleEngines_def)
qed

theorem C3_counterexample:
  "fst (generate ApiIndex exampleConfig exampleEngines ''r1'' (exampleRequest (Some ''Jane Doe''))
      (exampleDisk [1, 2, 3])) = Json 500 ''Input buffer contains unsupported image format''"
  by (simp add: run_defs)

subsection \<open>C4: sanitizing a name twice\<close>

text \<open>
  C4 (corrected). The claim: the name sanitization (uppercase, trim, strip colon and double
  quote) is idempotent. The handler trims before it strips, so a stripped character can
  expose white space that the first pass keeps and a second pass trims: the name
  \<^verbatim>\<open>: a\<close> gives \<^verbatim>\<open> A\<close> with a leading space, and that gives \<^verbatim>\<open>A\<close>.
  What holds, for every ASCII string: the sanitized name is ASCII again and sanitizing it
  once more equals trimming it; and the sanitization is idempotent on every ASCII name
  without colon and double quote. The strip step \<open>sanitizeForDrawText\<close> is idempotent by
  itself, on every string. Nothing is stated about the whole sanitization beyond ASCII,
  where \<open>toUpperCase\<close> is not JavaScript's.
\<close>

theorem C4_sanitize_twice:
  "(ascii s \<longrightarrow>
      ascii (sanitizeName s) \<and> sanitizeName (sanitizeName s) = trim (sanitizeName s))
   \<and> sanitizeForDrawText (sanitizeForDrawText s) = sanitizeForDrawText s
   \<and> (ascii s \<and> CHR '':'' \<notin> set s \<and> dquote \<notin> set s \<longrightarrow>
        sanitizeName (sanitizeName s) = sanitizeName s)"
proof (intro conjI impI)
  assume "ascii s"
  then show "ascii (sanitizeName s)" by (rule ascii_sanitizeName)
  show "sanitizeName (sanitizeName s) = trim (sanitizeName s)"
    by (rule sanitizeName_twice)
next
  show "sanitizeForDrawText (sanitizeForDrawText s) = sanitizeForDrawText s"
    by (rule sanitizeForDrawText_idem)
next
  assume "ascii s \<and> CHR '':'' \<notin> set s \<and> dquote \<notin> set s"
  then have "CHR '':'' \<notin> set (toUpperCase s)" "dquote \<notin> set (toUpperCase s)"
    by (simp_all add: set_toUpperCase_colon set_toUpperCase_dquote)
  then have "CHR '':'' \<notin> set (trim (toUpperCase s))" "dquote \<notin> set (trim (toUpperCase s))"
    using set_trim [of "toUpperCase s"] by auto
  then have eq: "sanitizeName s = trim (toUpperCase s)"
    unfolding sanitizeName_def by (rule sanitizeForDrawText_clean)
  have "sanitizeName (sanitizeName s) = trim (sanitizeName s)"
    by (rule sanitizeName_twice)
  also have "\<dots> = trim (trim (toUpperCase s))"
    by (simp only: eq)
  also have "\<dots> = trim (toUpperCase s)"
    by (rule trim_idem)
  also have "\<dots> = sanitizeName s"
    by (simp only: eq)
  finally show "sanitizeName (sanitizeName s) = sanitizeName s" .
qed

theorem C4_sanitize_twice_witness:
  "ascii ''  Jane Doe ''
   \<and> (CHR '':'' \<notin> set ''  Jane Doe '' \<and> dquote \<notin> set ''  Jane Doe '')
   \<and> sanitizeName ''  Jane Doe '' = ''JANE DOE''
   \<and> sanitizeName (sanitizeName ''  Jane Doe '') = sanitizeName ''  Jane Doe ''
   \<and> ascii '': a''
   \<and> sanitizeName '': a'' = '' A''
   \<and> sanitizeName (sanitizeName '': a'') = trim (sanitizeName '': a'')
   \<and> trim (sanitizeName '': a'') = ''A''"
proof -
  have a: "ascii ''  Jane Doe ''" and a': "ascii '': a''"
    by simp_all
  have h: "CHR '':'' \<notin> set ''  Jane Doe '' \<and> dquote \<notin> set ''  Jane Doe ''"
    by (simp add: dquote_def)
  have v: "sanitizeName ''  Jane Doe '' = ''JANE DOE''"
    and v': "sanitizeName '': a'' = '' A''"
    by (simp_all add: sanitizeName_def sanitizeForDrawText_def trim_def toUpperCase_def
        toUpperCaseChar_def isWhiteSpace_def dquote_def)
  have t: "trim '' A'' = ''A''"
    by (simp add: trim_def isWhiteSpace_def)
  from C4_sanitize_twice [of "''  Jane Doe ''"] a h
  have i: "sanitizeName (sanitizeName ''  Jane Doe '') = sanitizeName ''  Jane Doe ''"
    by blast
  from C4_sanitize_twice [of "'': a''"] a'
  have j: "sanitizeName (sanitizeName '': a'') = trim (sanitizeName '': a'')"
    by blast
  from t have t': "trim (sanitizeName '': a'') = ''A''"
    unfolding v' .
  from a a' h v v' i j t' show ?thesis by blast
qed

theorem C4_counterexample:
  "sanitizeName (sanitizeName '': a'') \<noteq> sanitizeName '': a''"
  by (simp add: run_defs)

subsection \<open>C5: the stripped characters never survive\<close>

text \<open>
  C5 (confirmed). For every input name the sanitized name contains no colon and no double
  quote. A name made only of colons and double quotes sanitizes to the empty string, and a
  request carrying it is rejected with a 400 response: with the message
  \<^verbatim>\<open>Name is required\<close> whenever a photo is attached (without a photo the earlier photo check
  answers, see C10).
\<close>

theorem C5_stripped_characters:
  "CHR '':'' \<notin> set (sanitizeName s) \<and> dquote \<notin> set (sanitizeName s)
   \<and> (set s \<subseteq> {CHR '':'', dquote} \<longrightarrow>
        sanitizeName s = []
        \<and> (body_name req = Some s \<longrightarrow>
             (req_file req \<noteq> None \<longrightarrow>
                fst (generate v cfg env requestId req st) = Json 400 ''Name is required'')
             \<and> (\<exists>m. fst (generate v cfg env requestId req st) = Json 400 m)))"
proof (intro conjI impI)
  show "CHR '':'' \<notin> set (sanitizeName s)" "dquote \<notin> set (sanitizeName s)"
    by (simp_all add: sanitizeName_def set_sanitizeForDrawText)
next
  assume only: "set s \<subseteq> {CHR '':'', dquote}"
  then show empty: "sanitizeName s = []" by (rule sanitizeName_only_stripped)
  assume "body_name req = Some s"
  then have "nameRaw req = s" by (cases s) (simp_all add: nameRaw_def)
  with empty have name: "sanitizeName (nameRaw req) = []" by simp
  show "\<exists>m. fst (generate v cfg env requestId req st) = Json 400 m"
  proof (cases "req_file req")
    case None
    then show ?thesis by (simp add: generate_no_photo)
  next
    case (Some f)
    with name show ?thesis by (simp add: generate_no_name)
  qed
  assume "req_file req \<noteq> None"
  then obtain f where "req_file req = Some f" by blast
  with name show "fst (generate v cfg env requestId req st) = Json 400 ''Name is required''"
    by (simp add: generate_no_name)
qed

theorem C5_stripped_characters_witness:
  "set ('':'' @ [dquote] @ '':'') \<subseteq> {CHR '':'', dquote}
   \<and> sanitizeName ('':'' @ [dquote] @ '':'') = []
   \<and> fst (generate ApiIndex exampleConfig exampleEngines ''r1''
          (exampleRequest (Some ('':'' @ [dquote] @ '':''))) (exampleDisk jpegBytes))
       = Json 400 ''Name is required''"
proof -
  let ?s = "'':'' @ [dquote] @ '':''"
  have h: "set ?s \<subseteq> {CHR '':'', dquote}" by simp
  have b: "body_name (exampleRequest (Some ?s)) = Some ?s"
    and f: "req_file (exampleRequest (Some ?s)) \<noteq> None"
    by (simp_all add: exampleRequest_def)
  from C5_stripped_characters [of ?s "exampleRequest (Some ?s)" ApiIndex exampleConfig
      exampleEngines "''r1''" "exampleDisk jpegBytes"] h b f
  show ?thesis by blast
qed

subsection \<open>C6: escaping the name and the font path\<close>

text \<open>
  C6 (code defect). The claim: every single quote of the sanitized name is replaced by
  backslash-quote, every colon of the font path likewise (after backslashes became slashes),
  so that a name with a single quote cannot add filter stages. The replacements are as
  described. But \<open>safeName\<close> leaves a backslash of the name alone: in the name made of a, a
  backslash, a single quote, a comma and b, the quote becomes backslash-quote after the
  name's own backslash. Even under the reading that the escaping presupposes (a backslash
  makes the next character literal) the result is an escaped backslash followed by a bare
  quote: the quoted text ends there, and \<^verbatim>\<open>,B\<close> with the rest of the directive lies outside
  the quotes, where a comma starts the next filter. A reader that takes every character up
  to the next quote literally ends the text at the same quote.
\<close>

theorem C6_backslash_quote_ends_text:
  "safeName (sanitizeName (''a'' @ [backslash, quote] @ '',b''))
     = ''A'' @ [backslash, backslash, quote] @ '',B''
   \<and> drawText ''/tmp/work/r1/Montserrat-Bold.ttf'' (sanitizeName (''a'' @ [backslash, quote] @ '',b''))
     = ''drawtext=fontfile='' @ [quote] @ ''/tmp/work/r1/Montserrat-Bold.ttf'' @ [quote]
         @ '':text='' @ [quote] @ ''A'' @ [backslash, backslash, quote] @ '',B'' @ [quote]
         @ '':fontcolor=#274245:fontsize=70:x=620-text_w/2:y=820''
   \<and> quotedText (''A'' @ [backslash, backslash, quote] @ '',B'' @ [quote]
         @ '':fontcolor=#274245:fontsize=70:x=620-text_w/2:y=820'')
     = Some (''A'' @ [backslash],
             '',B'' @ [quote] @ '':fontcolor=#274245:fontsize=70:x=620-text_w/2:y=820'')"
  by (simp add: safeName_def drawText_def fontPathEscapedForFilter_def fontPathForFF_def
      sanitizeName_def sanitizeForDrawText_def trim_def toUpperCase_def toUpperCaseChar_def
      isWhiteSpace_def backslash_def quote_def dquote_def)

subsection \<open>C7: validation comes before the costly work\<close>

text \<open>
  C7 (corrected). The claim: before any costly work the handler requires the photo present
  and non-empty and the name non-empty after sanitization (400 each), and the template video
  and the font file present (500 each). The handler tests that a photo is attached, not that
  it has content: an attached empty photo passes validation, the font is copied, and sharp
  fails on the empty buffer with a 500. What holds: a missing photo and an empty name give
  400, a missing template and a missing font give 500, in this order and each without any
  costly call; and a costly call is only ever made once all four checks have passed.
\<close>

theorem C7_validation_before_work:
  "(req_file req = None \<longrightarrow>
      fst (generate v cfg env requestId req st) = Json 400 ''Photo is required (field name: photo)''
      \<and> calls (snd (generate v cfg env requestId req st)) = calls st)
   \<and> (req_file req \<noteq> None \<and> sanitizeName (nameRaw req) = [] \<longrightarrow>
      fst (generate v cfg env requestId req st) = Json 400 ''Name is required''
      \<and> calls (snd (generate v cfg env requestId req st)) = calls st)
   \<and> (req_file req \<noteq> None \<and> sanitizeName (nameRaw req) \<noteq> []
        \<and> \<not> pathExists (TEMPLATE_VIDEO cfg) (ensureDir (workDirOf cfg requestId) st) \<longrightarrow>
      fst (generate v cfg env requestId req st) = Json 500 ''Template video missing on server''
      \<and> calls (snd (generate v cfg env requestId req st)) = calls st)
   \<and> (req_file req \<noteq> None \<and> sanitizeName (nameRaw req) \<noteq> []
        \<and> pathExists (TEMPLATE_VIDEO cfg) (ensureDir (workDirOf cfg requestId) st)
        \<and> \<not> pathExists (FONT_FILE cfg) (ensureDir (workDirOf cfg requestId) st) \<longrightarrow>
      fst (generate v cfg env requestId req st) = Json 500 ''Font file missing on server''
      \<and> calls (snd (generate v cfg env requestId req st)) = calls st)
   \<and> (calls (snd (generate v cfg env requestId req st)) \<noteq> calls st \<longrightarrow>
      req_file req \<noteq> None \<and> sanitizeName (nameRaw req) \<noteq> []
      \<and> pathExists (TEMPLATE_VIDEO cfg) (ensureDir (workDirOf cfg requestId) st)
      \<and> pathExists (FONT_FILE cfg) (ensureDir (workDirOf cfg requestId) st))"
proof (intro conjI impI)
  let ?w = "workDirOf cfg requestId"
  assume "calls (snd (generate v cfg env requestId req st)) \<noteq> calls st"
  then have ne: "calls (stateOf (generateTry v cfg env ?w req (ensureDir ?w st))) \<noteq> calls (ensureDir ?w st)"
    by (simp add: calls_generate)
  with generateTry_calls_cases [of v cfg env ?w req "ensureDir ?w st"]
  show "req_file req \<noteq> None" "sanitizeName (nameRaw req) \<noteq> []"
    "pathExists (TEMPLATE_VIDEO cfg) (ensureDir ?w st)"
    "pathExists (FONT_FILE cfg) (ensureDir ?w st)"
    by auto
qed (auto simp: generate_no_photo generate_no_name generate_no_template generate_no_font)

theorem C7_validation_before_work_witness:
  "fst (generate ApiIndex exampleConfig exampleEngines ''r1'' (noPhotoRequest (Some ''Jane Doe''))
      (exampleDisk jpegBytes)) = Json 400 ''Photo is required (field name: photo)''
   \<and> fst (generate ApiIndex exampleConfig exampleEngines ''r1'' (exampleRequest (Some '' ''))
      (exampleDisk jpegBytes)) = Json 400 ''Name is required''
   \<and> fst (generate ApiIndex exampleConfig exampleEngines ''r1'' (exampleRequest (Some ''Jane Doe''))
      (diskWithoutAssets jpegBytes)) = Json 500 ''Template video missing on server''
   \<and> fst (generate ApiIndex exampleConfig exampleEngines ''r1'' (exampleRequest (Some ''Jane Doe''))
      (diskWithoutFont jpegBytes)) = Json 500 ''Font file missing on server''
   \<and> calls (snd (generate ApiIndex exampleConfig exampleEngines ''r1''
        (exampleRequest (Some ''Jane Doe'')) (diskWithoutFont jpegBytes))) = []
   \<and> calls (snd (generate ApiIndex exampleConfig exampleEngines ''r1''
        (exampleRequest (Some ''Jane Doe'')) (exampleDisk jpegBytes))) \<noteq> []
   \<and> pathExists (FONT_FILE exampleConfig)
        (ensureDir (workDirOf exampleConfig ''r1'') (exampleDisk jpegBytes))"
proof -
  let ?ok = "exampleRequest (Some ''Jane Doe'')"
  let ?w = "workDirOf exampleConfig ''r1''"
  have p: "req_file (noPhotoRequest (Some ''Jane Doe'')) = None"
    by (simp add: noPhotoRequest_def)
  have f: "req_file (exampleRequest name) \<noteq> None" for name
    by (simp add: exampleRequest_def)
  have n0: "sanitizeName (nameRaw (exampleRequest (Some '' ''))) = []"
    by (simp add: run_defs)
  have n1: "sanitizeName (nameRaw ?ok) \<noteq> []"
    by (simp add: run_defs)
  have t0: "\<not> pathExists (TEMPLATE_VIDEO exampleConfig) (ensureDir ?w (diskWithoutAssets jpegBytes))"
    by (simp add: run_defs)
  have t1: "pathExists (TEMPLATE_VIDEO exampleConfig) (ensureDir ?w (diskWithoutFont jpegBytes))"
    by (simp add: run_defs)
  have f0: "\<not> pathExists (FONT_FILE exampleConfig) (ensureDir ?w (diskWithoutFont jpegBytes))"
    by (simp add: run_defs)
  have c0: "calls (diskWithoutFont jpegBytes) = []" and c1: "calls (exampleDisk jpegBytes) = []"
    by (simp_all add: diskWithoutFont_def exampleDisk_def)
  have c2: "calls (snd (generate ApiIndex exampleConfig exampleEngines ''r1'' ?ok
               (exampleDisk jpegBytes))) \<noteq> []"
    by (simp add: run_defs)
  from p C7_validation_before_work [of "noPhotoRequest (Some ''Jane Doe'')" ApiIndex exampleConfig
      exampleEngines "''r1''" "exampleDisk jpegBytes"]
  have r1: "fst (generate ApiIndex exampleConfig exampleEngines ''r1''
      (noPhotoRequest (Some ''Jane Doe'')) (exampleDisk jpegBytes))
        = Json 400 ''Photo is required (field name: photo)''"
    by blast
  from f n0 C7_validation_before_work [of "exampleRequest (Some '' '')" ApiIndex exampleConfig
      exampleEngines "''r1''" "exampleDisk jpegBytes"]
  have r2: "fst (generate ApiIndex exampleConfig exampleEngines ''r1'' (exampleRequest (Some '' ''))
      (exampleDisk jpegBytes)) = Json 400 ''Name is required''"
    by blast
  from f n1 t0 C7_validation_before_work [of ?ok ApiIndex exampleConfig
      exampleEngines "''r1''" "diskWithoutAssets jpegBytes"]
  have r3: "fst (generate ApiIndex exampleConfig exampleEngines ''r1'' ?ok
      (diskWithoutAssets jpegBytes)) = Json 500 ''Template video missing on server''"
    by blast
  from f n1 t1 f0 C7_validation_before_work [of ?ok ApiIndex exampleConfig
      exampleEngines "''r1''" "diskWithoutFont jpegBytes"]
  have r4: "fst (generate ApiIndex exampleConfig exampleEngines ''r1'' ?ok
      (diskWithoutFont jpegBytes)) = Json 500 ''Font file missing on server''"
    and r5: "calls (snd (generate ApiIndex exampleConfig exampleEngines ''r1'' ?ok
      (diskWithoutFont jpegBytes))) = calls (diskWithoutFont jpegBytes)"
    by blast+
  from c2 have "calls (snd (generate ApiIndex exampleConfig exampleEngines ''r1'' ?ok
               (exampleDisk jpegBytes))) \<noteq> calls (exampleDisk jpegBytes)"
    unfolding c1 .
  with C7_validation_before_work [of ?ok ApiIndex exampleConfig
      exampleEngines "''r1''" "exampleDisk jpegBytes"]
  have r6: "pathExists (FONT_FILE exampleConfig) (ensureDir ?w (exampleDisk jpegBytes))"
    by blast
  from r5 have r5': "calls (snd (generate ApiIndex exampleConfig exampleEngines ''r1'' ?ok
      (diskWithoutFont jpegBytes))) = []"
    unfolding c0 .
  from r1 r2 r3 r4 r5' c2 r6 show ?thesis by blast
qed

theorem C7_counterexample:
  "fst (generate ApiIndex exampleConfig exampleEngines ''r1'' (exampleRequest (Some ''Jane Doe''))
      (exampleDisk [])) = Json 500 ''Input Buffer is empty''
   \<and> hd (calls (snd (generate ApiIndex exampleConfig exampleEngines ''r1''
        (exampleRequest (Some ''Jane Doe'')) (exampleDisk []))))
      = FsCopy ''/var/task/media/Montserrat-Bold.ttf'' ''/tmp/work/r1/Montserrat-Bold.ttf''"
  by (simp add: run_defs)

subsection \<open>C8: placement of the overlay and of the text\<close>

text \<open>
  C8 (confirmed). The overlay offset is (620 - 300, 425 - 300) = (320, 125) on the canvas of
  1240 by 1748, and the text directive is centred on 620 by \<^verbatim>\<open>x=620-text_w/2\<close> with
  \<^verbatim>\<open>y=820\<close> and \<^verbatim>\<open>fontsize=70\<close>: all constants of the filter graph, whose only varying
  parts are the escaped path of the font copy in the workspace and the sanitized name. Every
  run of the render engine that the handler starts carries this filter graph.
\<close>

theorem C8_placement:
  "overlayX = 620 - 300 \<and> overlayX = 320 \<and> overlayY = 425 - 300 \<and> overlayY = 125
   \<and> CANVAS_W = 1240 \<and> CANVAS_H = 1748
   \<and> filterComplex fontCopyPath name
     = ''[0:v]scale=1240:1748:force_original_aspect_ratio=decrease,''
       @ ''pad=1240:1748:(ow-iw)/2:(oh-ih)/2:black,setsar=1[base];''
       @ ''[1:v]format=rgba[ovr];''
       @ ''[base][ovr]overlay=320:125:format=auto[tmp];''
       @ ''[tmp]drawtext=fontfile='' @ [quote] @ fontPathEscapedForFilter fontCopyPath @ [quote]
       @ '':text='' @ [quote] @ safeName name @ [quote]
       @ '':fontcolor=#274245:fontsize=70:x=620-text_w/2:y=820''
       @ '',format=yuv420p[v]''
   \<and> (calls st = [] \<and> FfmpegSave job \<in> set (calls (snd (generate v cfg env requestId req st)))
        \<longrightarrow> complexFilter job
              = filterComplex (pathJoin cfg (workDirOf cfg requestId) ''Montserrat-Bold.ttf'')
                  (sanitizeName (nameRaw req)))"
proof (intro conjI impI)
  assume "calls st = [] \<and> FfmpegSave job \<in> set (calls (snd (generate v cfg env requestId req st)))"
  then have "job = renderJob cfg (pathJoin cfg (workDirOf cfg requestId) ''Montserrat-Bold.ttf'')
                 (pathJoin cfg (workDirOf cfg requestId) ''overlay_600.png'')
                 (sanitizeName (nameRaw req))
                 (pathJoin cfg (workDirOf cfg requestId) ''output.mp4'')"
    using generate_ffmpeg_job by blast
  then show "complexFilter job
              = filterComplex (pathJoin cfg (workDirOf cfg requestId) ''Montserrat-Bold.ttf'')
                  (sanitizeName (nameRaw req))"
    by (simp add: renderJob_def)
qed (simp_all add: overlayX_def overlayY_def CANVAS_W_def CANVAS_H_def filterComplex_text)

theorem C8_placement_witness:
  "calls (exampleDisk jpegBytes) = []
   \<and> FfmpegSave (renderJob exampleConfig ''/tmp/work/r1/Montserrat-Bold.ttf''
           ''/tmp/work/r1/overlay_600.png'' ''JANE DOE'' ''/tmp/work/r1/output.mp4'')
       \<in> set (calls (snd (generate ApiIndex exampleConfig exampleEngines ''r1''
           (exampleRequest (Some ''Jane Doe'')) (exampleDisk jpegBytes))))
   \<and> complexFilter (renderJob exampleConfig ''/tmp/work/r1/Montserrat-Bold.ttf''
           ''/tmp/work/r1/overlay_600.png'' ''JANE DOE'' ''/tmp/work/r1/output.mp4'')
       = ''[0:v]scale=1240:1748:force_original_aspect_ratio=decrease,''
         @ ''pad=1240:1748:(ow-iw)/2:(oh-ih)/2:black,setsar=1[base];''
         @ ''[1:v]format=rgba[ovr];''
         @ ''[base][ovr]overlay=320:125:format=auto[tmp];''
         @ ''[tmp]drawtext=fontfile='' @ [quote] @ ''/tmp/work/r1/Montserrat-Bold.ttf'' @ [quote]
         @ '':text='' @ [quote] @ ''JANE DOE'' @ [quote]
         @ '':fontcolor=#274245:fontsize=70:x=620-text_w/2:y=820''
         @ '',format=yuv420p[v]''"
proof -
  let ?job = "renderJob exampleConfig ''/tmp/work/r1/Montserrat-Bold.ttf''
           ''/tmp/work/r1/overlay_600.png'' ''JANE DOE'' ''/tmp/work/r1/output.mp4''"
  let ?req = "exampleRequest (Some ''Jane Doe'')"
  have a: "calls (exampleDisk jpegBytes) = []"
    by (simp add: exampleDisk_def)
  have b: "FfmpegSave ?job \<in> set (calls (snd (generate ApiIndex exampleConfig exampleEngines ''r1''
           ?req (exampleDisk jpegBytes))))"
    by (simp add: run_defs)
  have n: "sanitizeName (nameRaw ?req) = ''JANE DOE''"
    by (simp add: run_defs)
  have p: "pathJoin exampleConfig (workDirOf exampleConfig ''r1'') ''Montserrat-Bold.ttf''
             = ''/tmp/work/r1/Montserrat-Bold.ttf''"
    by (simp add: pathJoin_def workDirOf_def exampleConfig_def)
  have e: "fontPathEscapedForFilter ''/tmp/work/r1/Montserrat-Bold.ttf''
             = ''/tmp/work/r1/Montserrat-Bold.ttf''"
    by (simp add: fontPathEscapedForFilter_def fontPathForFF_def replaceAll_def
        backslash_def quote_def)
  have s: "safeName ''JANE DOE'' = ''JANE DOE''"
    by (simp add: safeName_def replaceAll_def quote_def)
  from C8_placement [of "''/tmp/work/r1/Montserrat-Bold.ttf''" "''JANE DOE''" "exampleDisk jpegBytes"
      ?job ApiIndex exampleConfig exampleEngines "''r1''" ?req] a b
  have "complexFilter ?job = filterComplex ''/tmp/work/r1/Montserrat-Bold.ttf'' ''JANE DOE''"
    and "filterComplex ''/tmp/work/r1/Montserrat-Bold.ttf'' ''JANE DOE''
       = ''[0:v]scale=1240:1748:force_original_aspect_ratio=decrease,''
         @ ''pad=1240:1748:(ow-iw)/2:(oh-ih)/2:black,setsar=1[base];''
         @ ''[1:v]format=rgba[ovr];''
         @ ''[base][ovr]overlay=320:125:format=auto[tmp];''
         @ ''[tmp]drawtext=fontfile='' @ [quote]
         @ fontPathEscapedForFilter ''/tmp/work/r1/Montserrat-Bold.ttf'' @ [quote]
         @ '':text='' @ [quote] @ safeName ''JANE DOE'' @ [quote]
         @ '':fontcolor=#274245:fontsize=70:x=620-text_w/2:y=820''
         @ '',format=yuv420p[v]''"
    unfolding n p by blast+
  with a b show ?thesis
    unfolding e s by simp
qed

subsection \<open>C9: the image pipeline\<close>

text \<open>
  C9 (corrected). The claim: the photo is resized with a cover fit to 600 by 600, masked so
  that only a circle of radius 300 is opaque, topped with a ring stroke of outer radius 295
  and stroke width 10 in a fixed colour, and encoded as a PNG with an alpha channel, written
  into the workspace. Every job the handler gives to sharp is the one below: cover fit to
  600 by 600; a filled circle of radius 300 blended with \<^verbatim>\<open>dest-in\<close>, which keeps the photo
  only where the circle is; a circle of radius 295 stroked with width 10 in \<^verbatim>\<open>#ff9933\<close>
  blended over it; the PNG encoder; and a target inside the workspace. What sharp writes for
  this job is a PNG of 600 by 600 with an alpha channel, whatever the input. The one part
  that fails is the outer radius: 295 is the radius of the stroked outline, and the stroke
  is centred on it, so the ring runs from radius 290 to radius 300 and its outer edge is the
  edge of the mask.
\<close>

theorem C9_overlay_pipeline:
  "(calls st = [] \<and> SharpToFile job \<in> set (calls (snd (generate v cfg env requestId req st)))
      \<longrightarrow> job =
            \<lparr>resizeWidth = 600, resizeHeight = 600, resizeFit = ''cover'',
             composite =
               [([newline] @ ''      <svg width=\"600\" height=\"600\" xmlns=\"http://www.w3.org/2000/svg\">'' @
                 [newline] @ ''        <circle cx=\"300\" cy=\"300\" r=\"300\" fill=\"#fff\"/>'' @
                 [newline] @ ''      </svg>'', ''dest-in''),
                ([newline] @ ''      <svg width=\"600\" height=\"600\" xmlns=\"http://www.w3.org/2000/svg\">'' @
                 [newline] @ ''        <circle cx=\"300\" cy=\"300\" r=\"295\"'' @
                 [newline] @ ''          fill=\"none\" stroke=\"#ff9933\" stroke-width=\"10\"/>'' @
                 [newline] @ ''      </svg>'', ''over'')],
             encoder = ''png'',
             toFile = pathJoin cfg (workDirOf cfg requestId) ''overlay_600.png''\<rparr>
          \<and> inside cfg (workDirOf cfg requestId) (toFile job)
          \<and> outputInfo job inputHasAlpha
              = Some \<lparr>outFormat = ''png'', outWidth = 600, outHeight = 600, outHasAlpha = True\<rparr>)
   \<and> targetSize div 2 = 300 \<and> borderRadius = 295 \<and> borderStrokeWidth = 10
   \<and> strokeInnerRadius borderRadius borderStrokeWidth = 290
   \<and> strokeOuterRadius borderRadius borderStrokeWidth = 300
   \<and> strokeOuterRadius borderRadius borderStrokeWidth = of_nat (targetSize div 2)"
proof (intro conjI impI)
  assume "calls st = [] \<and> SharpToFile job \<in> set (calls (snd (generate v cfg env requestId req st)))"
  then have j: "job = overlayJob (pathJoin cfg (workDirOf cfg requestId) ''overlay_600.png'')"
    using generate_sharp_job by blast
  then show "job =
            \<lparr>resizeWidth = 600, resizeHeight = 600, resizeFit = ''cover'',
             composite =
               [([newline] @ ''      <svg width=\"600\" height=\"600\" xmlns=\"http://www.w3.org/2000/svg\">'' @
                 [newline] @ ''        <circle cx=\"300\" cy=\"300\" r=\"300\" fill=\"#fff\"/>'' @
                 [newline] @ ''      </svg>'', ''dest-in''),
                ([newline] @ ''      <svg width=\"600\" height=\"600\" xmlns=\"http://www.w3.org/2000/svg\">'' @
                 [newline] @ ''        <circle cx=\"300\" cy=\"300\" r=\"295\"'' @
                 [newline] @ ''          fill=\"none\" stroke=\"#ff9933\" stroke-width=\"10\"/>'' @
                 [newline] @ ''      </svg>'', ''over'')],
             encoder = ''png'',
             toFile = pathJoin cfg (workDirOf cfg requestId) ''overlay_600.png''\<rparr>"
    by (simp add: overlayJob_def circleSvg_text borderSvg_text targetSize_def)
  from j show "inside cfg (workDirOf cfg requestId) (toFile job)"
    by (simp add: overlayJob_def inside_pathJoin)
  from j show "outputInfo job inputHasAlpha
      = Some \<lparr>outFormat = ''png'', outWidth = 600, outHeight = 600, outHasAlpha = True\<rparr>"
    by (simp add: overlayJob_def outputInfo_def targetSize_def)
qed (simp_all add: targetSize_def borderRadius_def borderStrokeWidth_def
    strokeInnerRadius_def strokeOuterRadius_def)

theorem C9_overlay_pipeline_witness:
  "calls (exampleDisk jpegBytes) = []
   \<and> SharpToFile (overlayJob ''/tmp/work/r1/overlay_600.png'')
       \<in> set (calls (snd (generate ApiIndex exampleConfig exampleEngines ''r1''
           (exampleRequest (Some ''Jane Doe'')) (exampleDisk jpegBytes))))
   \<and> inside exampleConfig (workDirOf exampleConfig ''r1'')
         (toFile (overlayJob ''/tmp/work/r1/overlay_600.png''))
   \<and> outputInfo (overlayJob ''/tmp/work/r1/overlay_600.png'') False
       = Some \<lparr>outFormat = ''png'', outWidth = 600, outHeight = 600, outHasAlpha = True\<rparr>"
proof -
  let ?job = "overlayJob ''/tmp/work/r1/overlay_600.png''"
  have a: "calls (exampleDisk jpegBytes) = []"
    by (simp add: exampleDisk_def)
  have b: "SharpToFile ?job \<in> set (calls (snd (generate ApiIndex exampleConfig exampleEngines ''r1''
           (exampleRequest (Some ''Jane Doe'')) (exampleDisk jpegBytes))))"
    by (simp add: run_defs)
  from C9_overlay_pipeline [of "exampleDisk jpegBytes" ?job ApiIndex exampleConfig exampleEngines
      "''r1''" "exampleRequest (Some ''Jane Doe'')" False] a b
  have "inside exampleConfig (workDirOf exampleConfig ''r1'') (toFile ?job)"
    and "outputInfo ?job False
       = Some \<lparr>outFormat = ''png'', outWidth = 600, outHeight = 600, outHasAlpha = True\<rparr>"
    by blast+
  with a b show ?thesis by blast
qed

theorem C9_counterexample:
  "strokeOuterRadius borderRadius borderStrokeWidth \<noteq> 295"
  by (simp add: targetSize_def borderRadius_def borderStrokeWidth_def strokeOuterRadius_def)



subsection \<open>C10: the photo is checked before the name\<close>

text \<open>
  C10 (confirmed). A request without a photo is answered with the photo-required error
  whatever its name is, so in particular when the name is missing too; and the name-required
  error is only ever returned for a request with a photo attached.
\<close>

theorem C10_photo_checked_first:
  "(req_file req = None \<longrightarrow>
      fst (generate v cfg env requestId req st) = Json 400 ''Photo is required (field name: photo)'')
   \<and> (fst (generate v cfg env requestId req st) = Json 400 ''Name is required'' \<longrightarrow>
        req_file req \<noteq> None)"
proof (intro conjI impI)
  assume "req_file req = None"
  then show "fst (generate v cfg env requestId req st) = Json 400 ''Photo is required (field name: photo)''"
    by (simp add: generate_no_photo)
next
  assume name: "fst (generate v cfg env requestId req st) = Json 400 ''Name is required''"
  show "req_file req \<noteq> None"
  proof
    assume "req_file req = None"
    then have "fst (generate v cfg env requestId req st) = Json 400 ''Photo is required (field name: photo)''"
      by (simp add: generate_no_photo)
    with name show False by simp
  qed
qed

theorem C10_photo_checked_first_witness:
  "req_file (noPhotoRequest None) = None
   \<and> fst (generate ApiIndex exampleConfig exampleEngines ''r1'' (noPhotoRequest None)
         (exampleDisk jpegBytes)) = Json 400 ''Photo is required (field name: photo)''
   \<and> fst (generate ApiIndex exampleConfig exampleEngines ''r1'' (exampleRequest None)
         (exampleDisk jpegBytes)) = Json 400 ''Name is required''
   \<and> req_file (exampleRequest None) \<noteq> None"
proof -
  have a: "req_file (noPhotoRequest None) = None"
    by (simp add: noPhotoRequest_def)
  have b: "fst (generate ApiIndex exampleConfig exampleEngines ''r1'' (exampleRequest None)
         (exampleDisk jpegBytes)) = Json 400 ''Name is required''"
    by (simp add: run_defs)
  from a C10_photo_checked_first [of "noPhotoRequest None" ApiIndex exampleConfig exampleEngines
      "''r1''" "exampleDisk jpegBytes"]
  have c: "fst (generate ApiIndex exampleConfig exampleEngines ''r1'' (noPhotoRequest None)
         (exampleDisk jpegBytes)) = Json 400 ''Photo is required (field name: photo)''"
    by blast
  from b C10_photo_checked_first [of "exampleRequest None" ApiIndex exampleConfig exampleEngines
      "''r1''" "exampleDisk jpegBytes"]
  have d: "req_file (exampleRequest None) \<noteq> None"
    by blast
  from a b c d show ?thesis by blast
qed

end
